theory Spec2Isabelle
  imports Main
begin

unbundle bit_operations_syntax

section \<open>Python values, errors and dictionaries\<close>

text \<open>
  The module \<^verbatim>\<open>adbb/animeobjs.py\<close> is embedded function by function. Python
  integers are \<^typ>\<open>int\<close>, strings are \<^typ>\<open>string\<close>, a \<^verbatim>\<open>datetime\<close> is a count of
  microseconds and a \<^verbatim>\<open>timedelta\<close> a difference of two such counts. A raised
  exception is a value of \<open>error\<close>.
\<close>

datatype error =
    TypeError | ValueError | KeyError | IndexError | AttributeError
  | NameError | AniDBError | AniDBFileError | DBAPIError | OtherError

datatype pyval = VNone | VBool bool | VInt int | VStr string | VTime int

text \<open>Truth value testing of \<^verbatim>\<open>if x:\<close> and \<^verbatim>\<open>not x\<close>; a datetime is always true.\<close>

fun truthy :: "pyval \<Rightarrow> bool" where
  "truthy VNone = False"
| "truthy (VBool b) = b"
| "truthy (VInt n) = (n \<noteq> 0)"
| "truthy (VStr s) = (s \<noteq> [])"
| "truthy (VTime t) = True"

text \<open>
  A \<^verbatim>\<open>dict\<close> keeps its insertion order: an association list. \<^verbatim>\<open>k in d\<close>,
  \<^verbatim>\<open>d[k]\<close>, \<^verbatim>\<open>del d[k]\<close> and \<^verbatim>\<open>d[k] = v\<close> (which keeps the position of a key that
  is already there and appends a new one).
\<close>

type_synonym pydict = "(string \<times> pyval) list"

definition dict_has :: "string \<Rightarrow> pydict \<Rightarrow> bool" where
  "dict_has k d = (k \<in> set (map fst d))"

definition dict_get :: "string \<Rightarrow> pydict \<Rightarrow> pyval option" where
  "dict_get k d = map_of d k"

definition dict_del :: "string \<Rightarrow> pydict \<Rightarrow> pydict" where
  "dict_del k d = filter (\<lambda>kv. fst kv \<noteq> k) d"

definition dict_set :: "string \<Rightarrow> pyval \<Rightarrow> pydict \<Rightarrow> pydict" where
  "dict_set k v d =
     (if dict_has k d then map (\<lambda>kv. if fst kv = k then (k, v) else kv) d
      else d @ [(k, v)])"

subsection \<open>\<^verbatim>\<open>int(s)\<close> and \<^verbatim>\<open>str(n)\<close>\<close>

text \<open>
  \<^verbatim>\<open>int\<close> of a string strips surrounding white space, reads an optional sign and
  then decimal digits, which single underscores may separate; anything else raises
  ValueError. Characters are bytes here, so only the ASCII digits are digits.
\<close>

definition is_space :: "char \<Rightarrow> bool" where
  "is_space c = (of_char c \<in> set [9, 10, 11, 12, 13, 28, 29, 30, 31, 32 :: nat])"

definition is_digit :: "char \<Rightarrow> bool" where
  "is_digit c = (48 \<le> (of_char c :: nat) \<and> (of_char c :: nat) \<le> 57)"

definition strip :: "string \<Rightarrow> string" where
  "strip s = rev (dropWhile is_space (rev (dropWhile is_space s)))"

fun digits_ok :: "string \<Rightarrow> bool" where
  "digits_ok [] = False"
| "digits_ok [c] = is_digit c"
| "digits_ok (c # d # cs) =
     (if is_digit c then digits_ok (d # cs)
      else c = CHR ''_'' \<and> is_digit d \<and> digits_ok (d # cs))"

definition digits_val :: "string \<Rightarrow> nat" where
  "digits_val s = foldl (\<lambda>acc c. 10 * acc + (of_char c - 48)) 0 (filter is_digit s)"

definition unsigned_int :: "string \<Rightarrow> nat option" where
  "unsigned_int s =
     (case s of [] \<Rightarrow> None
      | c # cs \<Rightarrow> if is_digit c \<and> digits_ok s then Some (digits_val s) else None)"

definition py_int_str :: "string \<Rightarrow> error + int" where
  "py_int_str s =
     (case strip s of
        [] \<Rightarrow> Inl ValueError
      | c # cs \<Rightarrow>
          if c = CHR ''-'' then
            (case unsigned_int cs of None \<Rightarrow> Inl ValueError | Some n \<Rightarrow> Inr (- int n))
          else if c = CHR ''+'' then
            (case unsigned_int cs of None \<Rightarrow> Inl ValueError | Some n \<Rightarrow> Inr (int n))
          else
            (case unsigned_int (c # cs) of None \<Rightarrow> Inl ValueError | Some n \<Rightarrow> Inr (int n)))"

fun py_int :: "pyval \<Rightarrow> error + int" where
  "py_int (VInt n) = Inr n"
| "py_int (VBool b) = Inr (if b then 1 else 0)"
| "py_int (VStr s) = py_int_str s"
| "py_int VNone = Inl TypeError"
| "py_int (VTime t) = Inl TypeError"

function str_nat :: "nat \<Rightarrow> string" where
  "str_nat n =
     (if n < 10 then [char_of (48 + n)]
      else str_nat (n div 10) @ [char_of (48 + n mod 10)])"
  by pat_completeness auto
termination
  by (relation "measure id") auto

declare str_nat.simps [simp del]

definition py_str_int :: "int \<Rightarrow> string" where
  "py_str_int i = (if i < 0 then CHR ''-'' # str_nat (nat (- i)) else str_nat (nat i))"

section \<open>File: decoding the status bit mask\<close>

text \<open>
  Lines 485 to 502 of \<^verbatim>\<open>File._anidb_file_data_callback\<close>: three chains of
  \<^verbatim>\<open>if state & mask\<close> write \<^verbatim>\<open>crc_ok\<close>, \<^verbatim>\<open>file_version\<close> and \<^verbatim>\<open>censored\<close> into the
  field dictionary. Python's \<^verbatim>\<open>&\<close> on integers is two's complement, as \<open>AND\<close> on
  \<^typ>\<open>int\<close> is.
\<close>

definition decode_crc :: "int \<Rightarrow> pydict \<Rightarrow> pydict" where
  "decode_crc state finfo =
     (if state AND 0x1 \<noteq> 0 then dict_set ''crc_ok'' (VBool True) finfo
      else if state AND 0x2 \<noteq> 0 then dict_set ''crc_ok'' (VBool False) finfo
      else finfo)"

definition decode_version :: "int \<Rightarrow> pydict \<Rightarrow> pydict" where
  "decode_version state finfo =
     (if state AND 0x4 \<noteq> 0 then dict_set ''file_version'' (VInt 2) finfo
      else if state AND 0x8 \<noteq> 0 then dict_set ''file_version'' (VInt 3) finfo
      else if state AND 0x10 \<noteq> 0 then dict_set ''file_version'' (VInt 4) finfo
      else if state AND 0x20 \<noteq> 0 then dict_set ''file_version'' (VInt 5) finfo
      else dict_set ''file_version'' (VInt 1) finfo)"

definition decode_censored :: "int \<Rightarrow> pydict \<Rightarrow> pydict" where
  "decode_censored state finfo =
     (if state AND 0x40 \<noteq> 0 then dict_set ''censored'' (VBool False) finfo
      else if state AND 0x80 \<noteq> 0 then dict_set ''censored'' (VBool True) finfo
      else finfo)"

definition decode_state :: "int \<Rightarrow> pydict \<Rightarrow> pydict" where
  "decode_state state finfo = decode_censored state (decode_version state (decode_crc state finfo))"

section \<open>AniDBObj: the shared refresh protocol\<close>

text \<open>
  The module level collaborators (the storage session \<^verbatim>\<open>adbb._sql_db\<close>, the link
  \<^verbatim>\<open>adbb._anidb\<close> and the logger) are not part of the module. Every call an entity
  makes on them is recorded, in order, in the entity's \<open>trace\<close>; what they answer is an
  argument of the function that calls them: the rows a query returns, the response
  the link delivers to a callback, the exception \<^verbatim>\<open>commit\<close> raises (if any) and the
  clock's \<^verbatim>\<open>now\<close>. A command is its class name with its keyword arguments. Where
  the order of requests and answers is at stake, the trace also records the link
  handing a response to a callback (\<open>Answered\<close>, with the result code) and a
  \<^verbatim>\<open>wait()\<close> that returns (\<open>Waited\<close>).
\<close>

type_synonym time = int
type_synonym addr = nat

datatype command = Command string pydict

datatype 'r event =
    DbAdd 'r | DbDelete 'r | DbDeleteRelation addr
  | DbCommit | DbCommitRaised error | DbRollback
  | LogDebug | LogInfo | LogWarning
  | Request command bool | Answered string | Waited

record response =
  rescode :: string
  datalines :: "pydict list"

text \<open>
  A cached row: its columns by name, and \<^verbatim>\<open>updated\<close>. The private attributes
  \<^verbatim>\<open>_updated\<close> (a \<^verbatim>\<open>threading.Event\<close>) and \<^verbatim>\<open>_updating\<close> (a \<^verbatim>\<open>threading.Lock\<close>,
  true while held) are \<open>ev_updated\<close> and \<open>updating\<close>.
\<close>

record row =
  attrs :: pydict
  updated :: time

record 'r AniDBObj =
  db_data :: "'r option"
  ev_updated :: bool
  updating :: bool
  trace :: "'r event list"

text \<open>
  The result of code that calls \<^verbatim>\<open>Event.wait()\<close>: it returns, or it waits for ever
  on an event nobody sets, or it raises (each with the state it ends in).
\<close>

datatype 's run = Returns 's | Waits 's | Raises error 's

text \<open>
  \<^verbatim>\<open>update_if_old\<close>. \<^verbatim>\<open>self.update\<close> is the method of the entity, passed in.
\<close>

definition update_if_old ::
  "(bool \<Rightarrow> ('y row_scheme, 'z) AniDBObj_scheme \<Rightarrow> 'res) \<Rightarrow> 'res \<Rightarrow> time \<Rightarrow> bool \<Rightarrow> time
     \<Rightarrow> ('y row_scheme, 'z) AniDBObj_scheme \<Rightarrow> 'res" where
  "update_if_old update nothing age block now s =
     (case db_data s of
        None \<Rightarrow> update True s
      | Some d \<Rightarrow>
          (let old = now - age
           in if updated d \<le> old then update block s else nothing))"

text \<open>
  \<^verbatim>\<open>_db_commit\<close>: only \<^verbatim>\<open>sqlalchemy.exc.DBAPIError\<close> is caught; the warning and the
  rollback follow it. Any other exception leaves the helper.
\<close>

definition db_commit ::
  "error option \<Rightarrow> ('r, 'z) AniDBObj_scheme
     \<Rightarrow> (error \<times> ('r, 'z) AniDBObj_scheme) + ('r, 'z) AniDBObj_scheme" where
  "db_commit raised s =
     (case raised of
        None \<Rightarrow> Inr (s\<lparr>trace := trace s @ [DbCommit]\<rparr>)
      | Some e \<Rightarrow>
          if e = DBAPIError
          then Inr (s\<lparr>trace := trace s @ [DbCommitRaised e, LogWarning, DbRollback]\<rparr>)
          else Inl (e, s\<lparr>trace := trace s @ [DbCommitRaised e]\<rparr>))"

text \<open>
  Modelled from the spec: \<^verbatim>\<open>update(**kwargs)\<close> of a table row (module \<^verbatim>\<open>adbb.db\<close>)
  updates the row's scalar fields in place, one per keyword; the row's constructor
  takes the keywords as its columns.
\<close>

definition row_update :: "pydict \<Rightarrow> pydict \<Rightarrow> pydict" where
  "row_update kwargs columns = fold (\<lambda>kv. dict_set (fst kv) (snd kv)) kwargs columns"

section \<open>Anime\<close>

text \<open>
  A relation row is an object of its own: \<^verbatim>\<open>_db_data_callback\<close> changes stored
  relation objects in place and compares objects by identity (\<^verbatim>\<open>r not in
  new_relations\<close>), so relation objects live in a store (\<open>objs\<close>, with \<open>fresh\<close> the next
  free address) and lists hold their addresses.
\<close>

record relation =
  related_aid :: int
  relation_type :: string
  anime_pk :: "int option"

record anime_row = row +
  pk :: "int option"
  relations :: "addr list"

record Anime = "anime_row AniDBObj" +
  aid :: int
  objs :: "addr \<Rightarrow> relation"
  fresh :: addr

fun split_on :: "char \<Rightarrow> string \<Rightarrow> string list" where
  "split_on c [] = [[]]"
| "split_on c (x # xs) =
     (if x = c then [] # split_on c xs
      else (case split_on c xs of w # ws \<Rightarrow> (x # w) # ws | [] \<Rightarrow> [[x]]))"

text \<open>Lines 120 to 125: the two list fields, zipped, and removed from the fields.\<close>

definition get_relations :: "pydict \<Rightarrow> error + ((string \<times> string) list option \<times> pydict)" where
  "get_relations ainfo =
     (if dict_has ''related_aid_list'' ainfo \<and> dict_has ''related_aid_type'' ainfo then
        (case (dict_get ''related_aid_list'' ainfo, dict_get ''related_aid_type'' ainfo) of
           (Some (VStr a), Some (VStr b)) \<Rightarrow>
             Inr (Some (zip (split_on (CHR 0x27) a) (split_on (CHR 0x27) b)),
                  dict_del ''related_aid_type'' (dict_del ''related_aid_list'' ainfo))
         | _ \<Rightarrow> Inl AttributeError)
      else Inr (None, ainfo))"

text \<open>
  Lines 126 to 130, the values: \<^verbatim>\<open>int(x)\<close> and \<^verbatim>\<open>anime_relation_map[y]\<close> for each
  pair, in order. The map is \<^verbatim>\<open>adbb.mapper\<close>'s, an argument here.
\<close>

fun mk_relations :: "(string \<rightharpoonup> string) \<Rightarrow> (string \<times> string) list \<Rightarrow> error + (int \<times> string) list" where
  "mk_relations m [] = Inr []"
| "mk_relations m ((x, y) # zs) =
     (case py_int_str x of
        Inl e \<Rightarrow> Inl e
      | Inr n \<Rightarrow>
          (case m y of
             None \<Rightarrow> Inl KeyError
           | Some t \<Rightarrow>
               (case mk_relations m zs of Inl e \<Rightarrow> Inl e | Inr rs \<Rightarrow> Inr ((n, t) # rs))))"

text \<open>Lines 126 to 130, the objects: one new \<^verbatim>\<open>AnimeRelationTable\<close> per pair.\<close>

fun alloc_relations ::
  "(int \<times> string) list \<Rightarrow> (addr \<Rightarrow> relation) \<Rightarrow> addr \<Rightarrow> addr list \<times> (addr \<Rightarrow> relation) \<times> addr" where
  "alloc_relations [] h n = ([], h, n)"
| "alloc_relations ((x, t) # rs) h n =
     (case alloc_relations rs
             (h(n := \<lparr>related_aid = x, relation_type = t, anime_pk = None\<rparr>)) (Suc n) of
        (as, h', n') \<Rightarrow> (n # as, h', n'))"

text \<open>Lines 133 to 135: the converters (\<^verbatim>\<open>adbb.mapper\<close>'s, an argument) field by field.\<close>

fun convert_anime ::
  "(string \<Rightarrow> (pyval \<Rightarrow> error + pyval) option) \<Rightarrow> pydict \<Rightarrow> error + pydict" where
  "convert_anime conv [] = Inr []"
| "convert_anime conv ((attr, data) # rest) =
     (case (case conv attr of None \<Rightarrow> Inr data | Some f \<Rightarrow> f data) of
        Inl e \<Rightarrow> Inl e
      | Inr v \<Rightarrow>
          (case convert_anime conv rest of Inl e \<Rightarrow> Inl e | Inr r \<Rightarrow> Inr ((attr, v) # r)))"

text \<open>Lines 143 to 148: the inner loop over the stored relations, for one \<open>r\<close>.\<close>

fun match_stored ::
  "addr \<Rightarrow> int option \<Rightarrow> addr list \<Rightarrow> bool \<times> addr list \<times> (addr \<Rightarrow> relation)
     \<Rightarrow> bool \<times> addr list \<times> (addr \<Rightarrow> relation)" where
  "match_stored r p [] acc = acc"
| "match_stored r p (sr # srs) (found, new_relations, h) =
     (if related_aid (h r) = related_aid (h sr)
      then match_stored r p srs
             (True, new_relations @ [sr],
              h(sr := (h sr)\<lparr>relation_type := relation_type (h r), anime_pk := p\<rparr>))
      else match_stored r p srs (found, new_relations, h))"

text \<open>Lines 141 to 151: the outer loop over the relations of the response.\<close>

fun merge_relations ::
  "int option \<Rightarrow> addr list \<Rightarrow> addr list \<Rightarrow> addr list \<times> (addr \<Rightarrow> relation)
     \<Rightarrow> addr list \<times> (addr \<Rightarrow> relation)" where
  "merge_relations p stored [] acc = acc"
| "merge_relations p stored (r # rs) (new_relations, h) =
     (case match_stored r p stored (False, new_relations, h) of
        (found, nr, h') \<Rightarrow>
          if \<not> found
          then merge_relations p stored rs (nr @ [r], h'(r := (h' r)\<lparr>anime_pk := p\<rparr>))
          else merge_relations p stored rs (nr, h'))"





text \<open>Lines 137 to 168, once the response is parsed.\<close>

definition Anime_merge ::
  "time \<Rightarrow> error option \<Rightarrow> (int \<times> string) list \<Rightarrow> pydict \<Rightarrow> Anime \<Rightarrow> (error \<times> Anime) + Anime" where
  "Anime_merge now raised rels ainfo s =
     (case alloc_relations rels (objs s) (fresh s) of
        (rs, h0, n0) \<Rightarrow>
          (let s1 =
             (case db_data s of
                Some d \<Rightarrow>
                  (let d1 = d\<lparr>attrs := row_update ainfo (attrs d), updated := now\<rparr>;
                       res = merge_relations (pk d1) (relations d1) rs ([], h0);
                       new_relations = fst res;
                       deleted = filter (\<lambda>r. r \<notin> set new_relations) (relations d1)
                   in s\<lparr>db_data := Some (d1\<lparr>relations := new_relations\<rparr>),
                        trace := trace s @ map DbDeleteRelation deleted,
                        objs := snd res, fresh := n0\<rparr>)
              | None \<Rightarrow>
                  (let new = \<lparr>attrs = ainfo, updated = now, pk = None, relations = rs\<rparr>
                   in s\<lparr>db_data := Some new, trace := trace s @ [DbAdd new],
                        objs := h0, fresh := n0\<rparr>))
           in case db_commit raised s1 of
                Inl (e, s2) \<Rightarrow> Inl (e, s2)
              | Inr s2 \<Rightarrow> Inr (s2\<lparr>ev_updated := True\<rparr>)))"

text \<open>
  Lines 116 to 135 of \<^verbatim>\<open>Anime._db_data_callback\<close>: the response alone decides
  the relation values and the converted fields, or the exception.
\<close>

definition Anime_parse ::
  "(string \<rightharpoonup> string) \<Rightarrow> (string \<Rightarrow> (pyval \<Rightarrow> error + pyval) option) \<Rightarrow> response
     \<Rightarrow> error + ((int \<times> string) list \<times> pydict)" where
  "Anime_parse anime_relation_map converters res =
     (case datalines res of
        [] \<Rightarrow> Inl IndexError
      | ainfo0 # _ \<Rightarrow>
          (case get_relations ainfo0 of
             Inl e \<Rightarrow> Inl e
           | Inr (None, ainfo1) \<Rightarrow> Inl TypeError
           | Inr (Some zs, ainfo1) \<Rightarrow>
               (case mk_relations anime_relation_map zs of
                  Inl e \<Rightarrow> Inl e
                | Inr rels \<Rightarrow>
                    (case convert_anime converters ainfo1 of
                       Inl e \<Rightarrow> Inl e
                     | Inr ainfo \<Rightarrow> Inr (rels, ainfo)))))"

text \<open>
  \<^verbatim>\<open>Anime._db_data_callback\<close>. An exception raised before line 137 leaves the entity
  as it was.
\<close>

definition Anime_db_data_callback ::
  "(string \<rightharpoonup> string) \<Rightarrow> (string \<Rightarrow> (pyval \<Rightarrow> error + pyval) option) \<Rightarrow> time \<Rightarrow> error option
     \<Rightarrow> response \<Rightarrow> Anime \<Rightarrow> (error \<times> Anime) + Anime" where
  "Anime_db_data_callback anime_relation_map converters now raised res s =
     (case Anime_parse anime_relation_map converters res of
        Inl e \<Rightarrow> Inl (e, s)
      | Inr (rels, ainfo) \<Rightarrow> Anime_merge now raised rels ainfo s)"

text \<open>
  \<^verbatim>\<open>Anime._send_anidb_update_req\<close>, run by the refresh thread. The link delivers
  \<open>res\<close> to the callback once, on its own thread (an exception of the callback stays
  there); \<^verbatim>\<open>wait\<close> returns when the callback has set the event.
\<close>

definition after_callback :: "(error \<times> 's) + 's \<Rightarrow> 's" where
  "after_callback r = (case r of Inl (e, s) \<Rightarrow> s | Inr s \<Rightarrow> s)"

definition Anime_send_anidb_update_req ::
  "(string \<rightharpoonup> string) \<Rightarrow> (string \<Rightarrow> (pyval \<Rightarrow> error + pyval) option) \<Rightarrow> pyval \<Rightarrow> time
     \<Rightarrow> error option \<Rightarrow> response \<Rightarrow> bool \<Rightarrow> Anime \<Rightarrow> Anime run" where
  "Anime_send_anidb_update_req anime_relation_map converters amask now raised res prio s =
     (let s1 = s\<lparr>ev_updated := False\<rparr>;
          req = Command ''AnimeCommand'' [(''aid'', VStr (py_str_int (aid s1))), (''amask'', amask)];
          s2 = s1\<lparr>trace := trace s1 @ [Request req prio]\<rparr>;
          s3 = after_callback (Anime_db_data_callback anime_relation_map converters now raised res s2)
      in if ev_updated s3 then Returns (s3\<lparr>updating := False\<rparr>) else Waits s3)"

section \<open>Rows without relations: Episode and File\<close>

text \<open>
  \<^verbatim>\<open>getattr(row, name, None)\<close>, and the lines that Episode and File share
  (287 to 296, 516 to 525 and 550 to 559): update the cached row in place, or create
  one and add it to the session.
\<close>

definition getattr :: "'y row_scheme option \<Rightarrow> string \<Rightarrow> pyval" where
  "getattr r name =
     (case r of None \<Rightarrow> VNone
      | Some d \<Rightarrow> (case dict_get name (attrs d) of None \<Rightarrow> VNone | Some v \<Rightarrow> v))"



section \<open>Episode\<close>

text \<open>
  The private attributes \<^verbatim>\<open>_eid\<close>, \<^verbatim>\<open>_anime\<close> and \<^verbatim>\<open>_episode_number\<close> are \<open>e_eid\<close>,
  \<open>e_anime\<close> and \<open>e_episode_number\<close>. The \<^verbatim>\<open>anime\<close> argument is an \<^verbatim>\<open>Anime\<close> or a value
  for \<^verbatim>\<open>Anime(...)\<close>, whose constructor (it asks \<^verbatim>\<open>adbb.anames\<close>) is an argument, as are
  the two queries of \<^verbatim>\<open>_get_db_data\<close>.
\<close>

datatype anime_arg = AnimeObj Anime | AnimeVal pyval

fun anime_truthy :: "anime_arg \<Rightarrow> bool" where
  "anime_truthy (AnimeObj a) = True"
| "anime_truthy (AnimeVal v) = truthy v"

record Episode = "row AniDBObj" +
  e_eid :: pyval
  e_anime :: "Anime option"
  e_episode_number :: pyval

definition Episode_get_db_data ::
  "(pyval \<Rightarrow> row list) \<Rightarrow> (int \<Rightarrow> pyval \<Rightarrow> row list) \<Rightarrow> Episode \<Rightarrow> Episode" where
  "Episode_get_db_data query_eid query_aid_epno s =
     (let res = (if truthy (e_eid s) then query_eid (e_eid s)
                 else (case e_anime s of
                         Some a \<Rightarrow> query_aid_epno (aid a) (e_episode_number s)
                       | None \<Rightarrow> []))
      in case res of
           [] \<Rightarrow> s
         | r # _ \<Rightarrow> s\<lparr>db_data := Some r, trace := trace s @ [LogDebug]\<rparr>)"

text \<open>
  \<^verbatim>\<open>Episode.__init__\<close>. Lines 251 to 255 compute \<^verbatim>\<open>str(int(epno))\<close>, drop the value
  (a ValueError is passed over, any other exception leaves the constructor) and store
  \<^verbatim>\<open>epno\<close> itself.
\<close>

definition Episode_init ::
  "(pyval \<Rightarrow> error + Anime) \<Rightarrow> (pyval \<Rightarrow> row list) \<Rightarrow> (int \<Rightarrow> pyval \<Rightarrow> row list)
     \<Rightarrow> anime_arg \<Rightarrow> pyval \<Rightarrow> pyval \<Rightarrow> error + Episode" where
  "Episode_init new_anime query_eid query_aid_epno anime epno eid =
     (let self = \<lparr>db_data = None, ev_updated = False, updating = False, trace = [],
                  e_eid = VNone, e_anime = None, e_episode_number = VNone\<rparr>
      in if \<not> ((anime_truthy anime \<and> truthy epno) \<or> truthy eid) then Inl AniDBError
         else if truthy eid
         then Inr (Episode_get_db_data query_eid query_aid_epno (self\<lparr>e_eid := eid\<rparr>))
         else
           (case (case anime of AnimeObj a \<Rightarrow> Inr a | AnimeVal v \<Rightarrow> new_anime v) of
              Inl e \<Rightarrow> Inl e
            | Inr a \<Rightarrow>
                (case (case py_int epno of
                         Inl e \<Rightarrow> if e = ValueError then Inr [] else Inl e
                       | Inr n \<Rightarrow> Inr (py_str_int n)) of
                   Inl e \<Rightarrow> Inl e
                 | Inr unused \<Rightarrow>
                     Inr (Episode_get_db_data query_eid query_aid_epno
                            (self\<lparr>e_anime := Some a, e_episode_number := epno\<rparr>)))))"

text \<open>
  Lines 276 to 285 of \<^verbatim>\<open>Episode._anidb_data_callback\<close>: here the episode number is
  replaced by \<^verbatim>\<open>str(int(data))\<close>; the three titles are passed over; every other field
  goes through its converter (\<^verbatim>\<open>adbb.mapper\<close>'s table, an argument; a field without
  one is a KeyError).
\<close>

fun convert_episode ::
  "(string \<Rightarrow> (pyval \<Rightarrow> error + pyval) option) \<Rightarrow> pydict \<Rightarrow> error + pydict" where
  "convert_episode conv [] = Inr []"
| "convert_episode conv ((attr, data) # rest) =
     (case (if attr = ''epno'' then
              (case py_int data of
                 Inl e \<Rightarrow> if e = ValueError then Inr data else Inl e
               | Inr n \<Rightarrow> Inr (VStr (py_str_int n)))
            else if attr \<in> set [''title_eng'', ''title_romaji'', ''title_kanji''] then Inr data
            else (case conv attr of None \<Rightarrow> Inl KeyError | Some f \<Rightarrow> f data)) of
        Inl e \<Rightarrow> Inl e
      | Inr v \<Rightarrow>
          (case convert_episode conv rest of Inl e \<Rightarrow> Inl e | Inr r \<Rightarrow> Inr ((attr, v) # r)))"


section \<open>File\<close>

text \<open>
  The private attributes \<^verbatim>\<open>_fid\<close>, \<^verbatim>\<open>_path\<close>, \<^verbatim>\<open>_size\<close>, \<^verbatim>\<open>_mtime\<close>, \<^verbatim>\<open>_ed2khash\<close>,
  \<^verbatim>\<open>_anime\<close>, \<^verbatim>\<open>_episode\<close> and \<^verbatim>\<open>_multiep\<close> are the fields \<open>f_fid\<close> and so on
  (\<^verbatim>\<open>None\<close> is \<open>VNone\<close>); \<^verbatim>\<open>_file_updated\<close> and \<^verbatim>\<open>_mylist_updated\<close> are the two
  completion events. \<^verbatim>\<open>adbb.fileinfo\<close>'s \<^verbatim>\<open>get_file_stats\<close> (modification time and
  size) and \<^verbatim>\<open>get_file_hash\<close> are arguments.
\<close>

datatype episode_arg = EpisodeObj Episode | EpisodeVal pyval

fun episode_truthy :: "episode_arg \<Rightarrow> bool" where
  "episode_truthy (EpisodeObj e) = True"
| "episode_truthy (EpisodeVal v) = truthy v"

record File = "row AniDBObj" +
  f_anime :: "Anime option"
  f_episode :: "Episode option"
  f_multiep :: "string list"
  f_fid :: pyval
  f_path :: pyval
  f_size :: pyval
  f_ed2khash :: pyval
  f_mtime :: pyval
  file_updated :: bool
  mylist_updated :: bool

text \<open>
  \<^verbatim>\<open>File._get_db_data\<close>: by \<^verbatim>\<open>fid\<close> when there is one; else by path, and then a
  first row whose size is not the probed size is deleted, the deletion committed, and
  the result taken as empty.
\<close>

definition File_get_db_data ::
  "(pyval \<Rightarrow> row list) \<Rightarrow> (pyval \<Rightarrow> row list) \<Rightarrow> error option \<Rightarrow> File \<Rightarrow> (error \<times> File) + File" where
  "File_get_db_data query_fid query_path raised s =
     (case (if truthy (f_fid s) then Inr (query_fid (f_fid s), s)
            else
              (case query_path (f_path s) of
                 [] \<Rightarrow> Inr ([], s)
               | r # rs \<Rightarrow>
                   if getattr (Some r) ''size'' \<noteq> f_size s
                   then (case db_commit raised (s\<lparr>trace := trace s @ [DbDelete r]\<rparr>) of
                           Inl (e, s') \<Rightarrow> Inl (e, s')
                         | Inr s' \<Rightarrow> Inr ([], s'))
                   else Inr (r # rs, s))) of
        Inl (e, s') \<Rightarrow> Inl (e, s')
      | Inr ([], s') \<Rightarrow> Inr s'
      | Inr (r # rs, s') \<Rightarrow> Inr (s'\<lparr>db_data := Some r, trace := trace s' @ [LogDebug]\<rparr>))"

text \<open>
  \<^verbatim>\<open>File.__init__\<close>. The constructors of Anime and Episode are arguments. An
  exception of the constructor comes with the trace of what it had done.
\<close>

definition File_init ::
  "(pyval \<Rightarrow> pyval \<times> pyval) \<Rightarrow> (pyval \<Rightarrow> error + Anime) \<Rightarrow> (Anime \<Rightarrow> pyval \<Rightarrow> error + Episode)
     \<Rightarrow> (pyval \<Rightarrow> row list) \<Rightarrow> (pyval \<Rightarrow> row list) \<Rightarrow> error option
     \<Rightarrow> pyval \<Rightarrow> pyval \<Rightarrow> anime_arg \<Rightarrow> episode_arg \<Rightarrow> (error \<times> File) + File" where
  "File_init get_file_stats new_anime new_episode query_fid query_path raised path fid anime episode =
     (let self = \<lparr>db_data = None, ev_updated = False, updating = False, trace = [],
                  f_anime = None, f_episode = None, f_multiep = [], f_fid = VNone,
                  f_path = VNone, f_size = VNone, f_ed2khash = VNone, f_mtime = VNone,
                  file_updated = False, mylist_updated = False\<rparr>
      in if \<not> truthy path \<and> \<not> truthy fid \<and> \<not> (anime_truthy anime \<and> episode_truthy episode)
         then Inl (AniDBError, self)
         else
           (let s1 = (if truthy path
                      then self\<lparr>f_path := path, f_mtime := fst (get_file_stats path),
                                f_size := snd (get_file_stats path)\<rparr>
                      else self)
            in case (if truthy fid
                     then (case py_int fid of Inl e \<Rightarrow> Inl e | Inr n \<Rightarrow> Inr (s1\<lparr>f_fid := VInt n\<rparr>))
                     else Inr s1) of
                 Inl e \<Rightarrow> Inl (e, s1)
               | Inr s2 \<Rightarrow>
                   (case (if anime_truthy anime then
                            (case (case anime of AnimeObj a \<Rightarrow> Inr a | AnimeVal v \<Rightarrow> new_anime v) of
                               Inl e \<Rightarrow> Inl e
                             | Inr a \<Rightarrow>
                                 (case (case episode of
                                          EpisodeObj ep \<Rightarrow> Inr ep
                                        | EpisodeVal v \<Rightarrow> new_episode a v) of
                                    Inl e \<Rightarrow> Inl e
                                  | Inr ep \<Rightarrow> Inr (s2\<lparr>f_anime := Some a, f_episode := Some ep\<rparr>)))
                          else Inr s2) of
                      Inl e \<Rightarrow> Inl (e, s2)
                    | Inr s3 \<Rightarrow> File_get_db_data query_fid query_path raised s3)))"

text \<open>The \<^verbatim>\<open>path\<close> property.\<close>

definition File_path :: "File \<Rightarrow> pyval" where
  "File_path s = (if truthy (f_path s) then f_path s else getattr (db_data s) ''path'')"

text \<open>
  The \<^verbatim>\<open>ed2khash\<close> property, which caches the hash in \<^verbatim>\<open>_ed2khash\<close>. Without a
  path, the test \<^verbatim>\<open>not self.db_data and not self.db_data.ed2khash\<close> raises when there
  is no cached row and is false when there is one.
\<close>

definition File_ed2khash ::
  "(pyval \<Rightarrow> pyval \<times> pyval) \<Rightarrow> (pyval \<Rightarrow> pyval) \<Rightarrow> File \<Rightarrow> error + (pyval \<times> File)" where
  "File_ed2khash get_file_stats get_file_hash s =
     (if truthy (f_ed2khash s) then Inr (f_ed2khash s, s)
      else if truthy (File_path s) then
        (let s1 = (if db_data s \<noteq> None \<and> truthy (getattr (db_data s) ''mtime'')
                      \<and> truthy (getattr (db_data s) ''size'')
                      \<and> truthy (getattr (db_data s) ''ed2khash'')
                   then (if fst (get_file_stats (File_path s)) = getattr (db_data s) ''mtime''
                            \<and> snd (get_file_stats (File_path s)) = getattr (db_data s) ''size''
                         then s\<lparr>f_ed2khash := getattr (db_data s) ''ed2khash''\<rparr> else s)
                   else s);
             s2 = (if \<not> truthy (f_ed2khash s1) then s1\<lparr>f_ed2khash := get_file_hash (f_path s1)\<rparr>
                   else s1)
         in Inr (f_ed2khash s2, s2))
      else
        (case db_data s of
           None \<Rightarrow> Inl AttributeError
         | Some d \<Rightarrow>
             Inr (getattr (db_data s) ''ed2khash'',
                  s\<lparr>f_ed2khash := getattr (db_data s) ''ed2khash''\<rparr>)))"








subsection \<open>The accessors the mylist methods use\<close>

text \<open>
  \<^verbatim>\<open>self.update\<close> is an argument: the file as a call of \<^verbatim>\<open>update\<close> leaves it when
  it returns. So are the constructors \<^verbatim>\<open>Anime(aid)\<close> and \<^verbatim>\<open>Episode(eid=...)\<close> and the
  \<^verbatim>\<open>update\<close> of an Episode. The default age of \<^verbatim>\<open>update_if_old\<close> is seven days.
\<close>

definition week :: time where
  "week = 7 * 24 * 3600 * 1000000"

definition File_getattr :: "(bool \<Rightarrow> File \<Rightarrow> File) \<Rightarrow> time \<Rightarrow> string \<Rightarrow> File \<Rightarrow> pyval \<times> File" where
  "File_getattr update now name s =
     (let s1 = update_if_old update s week False now s
      in (getattr (db_data s1) name, s1))"

definition File_fid :: "(bool \<Rightarrow> File \<Rightarrow> File) \<Rightarrow> File \<Rightarrow> error + (pyval \<times> File)" where
  "File_fid update s =
     (if truthy (f_fid s) then Inr (f_fid s, s)
      else
        (let s1 = (if db_data s = None \<or> \<not> truthy (getattr (db_data s) ''fid'')
                   then update True s else s)
         in case db_data s1 of
              None \<Rightarrow> Inl AttributeError
            | Some d \<Rightarrow> Inr (getattr (db_data s1) ''fid'', s1)))"

definition File_anime ::
  "(pyval \<Rightarrow> error + Anime) \<Rightarrow> (bool \<Rightarrow> File \<Rightarrow> File) \<Rightarrow> File \<Rightarrow> (error \<times> File) + (Anime option \<times> File)" where
  "File_anime new_anime update s =
     (case f_anime s of
        Some a \<Rightarrow> Inr (Some a, s)
      | None \<Rightarrow>
          (let s1 = (if db_data s = None \<or> \<not> truthy (getattr (db_data s) ''aid'')
                     then update True s else s)
           in case db_data s1 of
                None \<Rightarrow> Inl (AttributeError, s1)
              | Some d \<Rightarrow>
                  if truthy (getattr (db_data s1) ''aid'')
                  then (case new_anime (getattr (db_data s1) ''aid'') of
                          Inl e \<Rightarrow> Inl (e, s1)
                        | Inr a \<Rightarrow> Inr (Some a, s1\<lparr>f_anime := Some a\<rparr>))
                  else Inr (f_anime s1, s1)))"

text \<open>
  The \<^verbatim>\<open>episode\<close> property. Its last branch names \<^verbatim>\<open>_multiep\<close> without \<^verbatim>\<open>self\<close>, a
  NameError once \<^verbatim>\<open>self.anime\<close> has been evaluated.
\<close>

definition File_episode ::
  "(pyval \<Rightarrow> error + Anime) \<Rightarrow> (pyval \<Rightarrow> error + Episode) \<Rightarrow> (bool \<Rightarrow> File \<Rightarrow> File) \<Rightarrow> File
     \<Rightarrow> (error \<times> File) + (Episode option \<times> File)" where
  "File_episode new_anime new_episode update s =
     (case f_episode s of
        Some ep \<Rightarrow> Inr (Some ep, s)
      | None \<Rightarrow>
          (let s1 = (if db_data s = None \<or> \<not> truthy (getattr (db_data s) ''eid'')
                     then update True s else s)
           in case db_data s1 of
                None \<Rightarrow> Inl (AttributeError, s1)
              | Some d \<Rightarrow>
                  if truthy (getattr (db_data s1) ''eid'')
                  then (case new_episode (getattr (db_data s1) ''eid'') of
                          Inl e \<Rightarrow> Inl (e, s1)
                        | Inr ep \<Rightarrow> Inr (Some ep, s1\<lparr>f_episode := Some ep\<rparr>))
                  else if f_multiep s1 \<noteq> []
                  then (case File_anime new_anime update s1 of
                          Inl (e, s2) \<Rightarrow> Inl (e, s2)
                        | Inr (Some a, s2) \<Rightarrow> Inl (NameError, s2)
                        | Inr (None, s2) \<Rightarrow> Inr (f_episode s2, s2))
                  else Inr (f_episode s1, s1)))"

text \<open>The \<^verbatim>\<open>episode_number\<close> property of an Episode.\<close>

definition Episode_episode_number ::
  "(bool \<Rightarrow> Episode \<Rightarrow> Episode) \<Rightarrow> Episode \<Rightarrow> error + (pyval \<times> Episode)" where
  "Episode_episode_number update e =
     (if truthy (e_episode_number e) then Inr (e_episode_number e, e)
      else
        (let e1 = (if db_data e = None \<or> \<not> truthy (getattr (db_data e) ''epno'')
                   then update True e else e)
         in case db_data e1 of
              None \<Rightarrow> Inl AttributeError
            | Some d \<Rightarrow> Inr (getattr (db_data e1) ''epno'', e1)))"

text \<open>\<^verbatim>\<open>self.anime.aid\<close> and \<^verbatim>\<open>self.episode.episode_number\<close>.\<close>

definition File_anime_aid ::
  "(pyval \<Rightarrow> error + Anime) \<Rightarrow> (bool \<Rightarrow> File \<Rightarrow> File) \<Rightarrow> File \<Rightarrow> (error \<times> File) + (pyval \<times> File)" where
  "File_anime_aid new_anime update s =
     (case File_anime new_anime update s of
        Inl (e, s1) \<Rightarrow> Inl (e, s1)
      | Inr (None, s1) \<Rightarrow> Inl (AttributeError, s1)
      | Inr (Some a, s1) \<Rightarrow> Inr (VInt (aid a), s1))"

definition File_episode_number ::
  "(pyval \<Rightarrow> error + Anime) \<Rightarrow> (pyval \<Rightarrow> error + Episode) \<Rightarrow> (bool \<Rightarrow> File \<Rightarrow> File)
     \<Rightarrow> (bool \<Rightarrow> Episode \<Rightarrow> Episode) \<Rightarrow> File \<Rightarrow> (error \<times> File) + (pyval \<times> File)" where
  "File_episode_number new_anime new_episode update episode_update s =
     (case File_episode new_anime new_episode update s of
        Inl (e, s1) \<Rightarrow> Inl (e, s1)
      | Inr (None, s1) \<Rightarrow> Inl (AttributeError, s1)
      | Inr (Some ep, s1) \<Rightarrow>
          (case Episode_episode_number episode_update ep of
             Inl e \<Rightarrow> Inl (e, s1)
           | Inr (n, ep1) \<Rightarrow> Inr (n, s1\<lparr>f_episode := Some ep1\<rparr>)))"

text \<open>The \<^verbatim>\<open>size\<close> property.\<close>

definition File_size :: "(pyval \<Rightarrow> pyval \<times> pyval) \<Rightarrow> File \<Rightarrow> pyval \<times> File" where
  "File_size get_file_stats s =
     (if truthy (f_size s) then (f_size s, s)
      else if truthy (File_path s)
      then (snd (get_file_stats (File_path s)),
            s\<lparr>f_mtime := fst (get_file_stats (File_path s)),
              f_size := snd (get_file_stats (File_path s))\<rparr>)
      else if db_data s \<noteq> None \<and> truthy (getattr (db_data s) ''size'')
      then (getattr (db_data s) ''size'', s\<lparr>f_size := getattr (db_data s) ''size''\<rparr>)
      else (f_size s, s))"

subsection \<open>Mylist mutation\<close>

text \<open>
  \<^verbatim>\<open>self._anidb_link.request(req, callback, prio=True)\<close> for the two local callbacks:
  the link answers the request with a result code (\<open>respond\<close>, an argument), the
  callback logs by the code and sets the local event, on which the method then waits.
  The codes the add callback tests second are the integers 210 and 310, which no
  result code (a string) equals, so it logs a warning or nothing.
\<close>

definition mylistadd_callback :: "string \<Rightarrow> row event list" where
  "mylistadd_callback code =
     (if code \<in> set [''320'', ''330'', ''350'', ''310''] then [LogWarning] else [])"

definition mylistdel_callback :: "string \<Rightarrow> row event list" where
  "mylistdel_callback code =
     (if code = ''211'' then [LogInfo] else if code = ''411'' then [LogWarning] else [])"

definition link_request ::
  "(command \<Rightarrow> string) \<Rightarrow> (string \<Rightarrow> row event list) \<Rightarrow> command \<Rightarrow> File \<Rightarrow> File" where
  "link_request respond callback req s =
     s\<lparr>trace := trace s @ [Request req True, Answered (respond req)] @ callback (respond req)\<rparr>"

text \<open>Lines 698 to 709: one add request for each episode number, each waited for.\<close>

fun add_episodes ::
  "(command \<Rightarrow> string) \<Rightarrow> (pyval \<Rightarrow> error + Anime) \<Rightarrow> (bool \<Rightarrow> File \<Rightarrow> File) \<Rightarrow> pydict
     \<Rightarrow> pyval list \<Rightarrow> File \<Rightarrow> File run" where
  "add_episodes respond new_anime update common [] s = Returns s"
| "add_episodes respond new_anime update common (ep # episodes) s =
     (case File_anime_aid new_anime update s of
        Inl (e, s1) \<Rightarrow> Raises e s1
      | Inr (a, s1) \<Rightarrow>
          (let req = Command ''MyListAddCommand''
                       ([(''aid'', a), (''epno'', ep), (''generic'', VInt 1)] @ common);
               s2 = link_request respond mylistadd_callback req s1;
               s3 = s2\<lparr>trace := trace s2 @ [Waited]\<rparr>
           in add_episodes respond new_anime update common episodes s3))"

text \<open>Lines 694 to 697 and 649 to 652: the episode numbers to go through.\<close>

definition episode_numbers ::
  "(pyval \<Rightarrow> error + Anime) \<Rightarrow> (pyval \<Rightarrow> error + Episode) \<Rightarrow> (bool \<Rightarrow> File \<Rightarrow> File)
     \<Rightarrow> (bool \<Rightarrow> Episode \<Rightarrow> Episode) \<Rightarrow> File \<Rightarrow> (error \<times> File) + (pyval list \<times> File)" where
  "episode_numbers new_anime new_episode update episode_update s =
     (if f_multiep s \<noteq> [] then Inr (map VStr (f_multiep s), s)
      else (case File_episode_number new_anime new_episode update episode_update s of
              Inl (e, s1) \<Rightarrow> Inl (e, s1)
            | Inr (n, s1) \<Rightarrow> Inr ([n], s1)))"

text \<open>Lines 719 to 726: the last wait, then the local fields and the commit.\<close>

definition add_local ::
  "time \<Rightarrow> error option \<Rightarrow> string \<Rightarrow> bool \<Rightarrow> pyval \<Rightarrow> pyval \<Rightarrow> File \<Rightarrow> File run" where
  "add_local now raised state watched source other s =
     (let s1 = s\<lparr>trace := trace s @ [Waited]\<rparr>
      in case db_data s1 of
           None \<Rightarrow> Raises AttributeError s1
         | Some d \<Rightarrow>
             (let c1 = dict_set ''mylist_viewed'' (VInt (if watched then 1 else 0))
                         (dict_set ''mylist_state'' (VStr state) (attrs d));
                  c2 = (if watched then dict_set ''mylist_viewdate'' (VTime now) c1 else c1);
                  c3 = dict_set ''mylist_other'' other (dict_set ''mylist_source'' source c2)
              in case db_commit raised (s1\<lparr>db_data := Some (d\<lparr>attrs := c3\<rparr>)\<rparr>) of
                   Inl (e, s2) \<Rightarrow> Raises e s2
                 | Inr s2 \<Rightarrow> Returns s2))"

text \<open>\<^verbatim>\<open>File.add_to_mylist\<close>. \<open>state_map\<close> is \<^verbatim>\<open>adbb.mapper.mylist_state_map\<close>.\<close>

definition File_add_to_mylist ::
  "(pyval \<times> string) list \<Rightarrow> (command \<Rightarrow> string) \<Rightarrow> (pyval \<Rightarrow> pyval \<times> pyval) \<Rightarrow> (pyval \<Rightarrow> pyval)
     \<Rightarrow> (pyval \<Rightarrow> error + Anime) \<Rightarrow> (pyval \<Rightarrow> error + Episode) \<Rightarrow> (bool \<Rightarrow> File \<Rightarrow> File)
     \<Rightarrow> (bool \<Rightarrow> Episode \<Rightarrow> Episode) \<Rightarrow> time \<Rightarrow> error option
     \<Rightarrow> string \<Rightarrow> bool \<Rightarrow> pyval \<Rightarrow> pyval \<Rightarrow> File \<Rightarrow> File run" where
  "File_add_to_mylist state_map respond get_file_stats get_file_hash new_anime new_episode update
       episode_update now raised state watched source other s =
     (let s0 = update_if_old update s week False now s
      in case filter (\<lambda>xy. snd xy = state) state_map of
           [] \<Rightarrow> Raises IndexError s0
         | xy # _ \<Rightarrow>
             (let common = [(''state'', fst xy), (''viewed'', VInt (if watched then 1 else 0)),
                          (''source'', source), (''other'', other)]
              in case File_fid update s0 of
                   Inl e \<Rightarrow> Raises e s0
                 | Inr (fid, s1) \<Rightarrow>
                     if truthy fid
                     then add_local now raised state watched source other
                            (link_request respond mylistadd_callback
                               (Command ''MyListAddCommand'' ((''fid'', fid) # common)) s1)
                     else
                       (case File_getattr update now ''is_generic'' s1 of
                          (generic, s2) \<Rightarrow>
                            if truthy generic
                            then
                              (case episode_numbers new_anime new_episode update episode_update s2 of
                                 Inl (e, s3) \<Rightarrow> Raises e s3
                               | Inr (episodes, s3) \<Rightarrow>
                                   (case add_episodes respond new_anime update common episodes s3 of
                                      Returns s4 \<Rightarrow>
                                        add_local now raised state watched source other s4
                                    | r \<Rightarrow> r))
                            else
                              (case File_size get_file_stats s2 of
                                 (sz, s3) \<Rightarrow>
                                   (case File_ed2khash get_file_stats get_file_hash s3 of
                                      Inl e \<Rightarrow> Raises e s3
                                    | Inr (ed2k, s4) \<Rightarrow>
                                        add_local now raised state watched source other
                                          (link_request respond mylistadd_callback
                                             (Command ''MyListAddCommand''
                                                ([(''size'', sz), (''ed2k'', ed2k)] @ common))
                                             s4))))))"

text \<open>
  Lines 653 to 659: the loop of \<^verbatim>\<open>remove_from_mylist\<close>, whose request takes
  \<^verbatim>\<open>self.episode.episode_number\<close>, not the loop's \<^verbatim>\<open>ep\<close>.
\<close>

fun del_episodes ::
  "(command \<Rightarrow> string) \<Rightarrow> (pyval \<Rightarrow> error + Anime) \<Rightarrow> (pyval \<Rightarrow> error + Episode)
     \<Rightarrow> (bool \<Rightarrow> File \<Rightarrow> File) \<Rightarrow> (bool \<Rightarrow> Episode \<Rightarrow> Episode) \<Rightarrow> pyval list \<Rightarrow> File \<Rightarrow> File run" where
  "del_episodes respond new_anime new_episode update episode_update [] s = Returns s"
| "del_episodes respond new_anime new_episode update episode_update (ep # episodes) s =
     (case File_anime_aid new_anime update s of
        Inl (e, s1) \<Rightarrow> Raises e s1
      | Inr (a, s1) \<Rightarrow>
          (case File_episode_number new_anime new_episode update episode_update s1 of
             Inl (e, s2) \<Rightarrow> Raises e s2
           | Inr (n, s2) \<Rightarrow>
               (let req = Command ''MyListDelCommand'' [(''aid'', a), (''epno'', n)];
                    s3 = link_request respond mylistdel_callback req s2;
                    s4 = s3\<lparr>trace := trace s3 @ [Waited]\<rparr>
                in del_episodes respond new_anime new_episode update episode_update episodes s4)))"

text \<open>
  \<^verbatim>\<open>File.remove_from_mylist\<close>. \<^verbatim>\<open>self.db\<close> and \<^verbatim>\<open>self.data\<close> are not attributes of a
  File: they go through \<^verbatim>\<open>__getattr__\<close> to the cached row, and \<^verbatim>\<open>self.data.fid\<close> is
  an AttributeError whatever the row holds.
\<close>

definition File_remove_from_mylist ::
  "(command \<Rightarrow> string) \<Rightarrow> (pyval \<Rightarrow> pyval \<times> pyval) \<Rightarrow> (pyval \<Rightarrow> pyval)
     \<Rightarrow> (pyval \<Rightarrow> error + Anime) \<Rightarrow> (pyval \<Rightarrow> error + Episode) \<Rightarrow> (bool \<Rightarrow> File \<Rightarrow> File)
     \<Rightarrow> (bool \<Rightarrow> Episode \<Rightarrow> Episode) \<Rightarrow> time \<Rightarrow> File \<Rightarrow> File run" where
  "File_remove_from_mylist respond get_file_stats get_file_hash new_anime new_episode update
       episode_update now s =
     (case File_getattr update now ''db'' s of
        (db, s1) \<Rightarrow>
          if truthy db \<and> truthy (getattr (db_data s1) ''fid'')
          then Raises AttributeError (snd (File_getattr update now ''data'' s1))
          else
            (case File_size get_file_stats s1 of
               (sz, s2) \<Rightarrow>
                 (case (if truthy sz
                        then (case File_ed2khash get_file_stats get_file_hash s2 of
                                Inl e \<Rightarrow> Inl e
                              | Inr (ed2k, s3) \<Rightarrow> Inr (truthy ed2k, ed2k, s3))
                        else Inr (False, VNone, s2)) of
                    Inl e \<Rightarrow> Raises e s2
                  | Inr (True, ed2k, s3) \<Rightarrow>
                      (let s4 = link_request respond mylistdel_callback
                                  (Command ''MyListDelCommand'' [(''size'', sz), (''ed2k'', ed2k)])
                                  s3
                       in Returns (s4\<lparr>trace := trace s4 @ [Waited]\<rparr>))
                  | Inr (False, ed2k, s3) \<Rightarrow>
                      (case episode_numbers new_anime new_episode update episode_update s3 of
                         Inl (e, s4) \<Rightarrow> Raises e s4
                       | Inr (episodes, s4) \<Rightarrow>
                           (case del_episodes respond new_anime new_episode update episode_update
                                   episodes s4 of
                              Returns s5 \<Rightarrow> Returns (s5\<lparr>trace := trace s5 @ [Waited]\<rparr>)
                            | r \<Rightarrow> r)))))"

section \<open>The refresh lock under concurrent callers\<close>

text \<open>
  \<^verbatim>\<open>AniDBObj.update\<close> and \<^verbatim>\<open>_fetch_anidb_data\<close> on one entity, called from any number
  of threads. A step is one atomic action of one thread. A caller of
  \<^verbatim>\<open>update(block)\<close> starts at \<^verbatim>\<open>acquire(False)\<close> (\<open>Start\<close>): with the lock it goes on
  to start the refresh thread (\<open>Launch\<close>) and, if blocking, to join it (\<open>Join\<close>);
  without the lock it returns, or, if blocking, waits for the lock
  (\<open>WaitLock\<close>, \<^verbatim>\<open>acquire(True)\<close>), holds it (\<open>HoldLock\<close>) and releases it. A refresh
  thread runs \<^verbatim>\<open>_send_anidb_update_req\<close>: started, it sends its request
  (\<open>Requested\<close>, the request is outstanding), and when the response has come and the
  callback has set the event it releases the lock (\<open>Released\<close>). A thread that cannot
  move (a blocked acquire or join, a finished thread) has no step; nothing forces a
  thread to move, so a response that never comes is a worker that stays \<open>Requested\<close>.
\<close>

datatype pc = Start | WaitLock | HoldLock | Launch | Join nat | Done

datatype wpc = Started | Requested | Released

record sys =
  lock_held :: bool
  callers :: "(bool \<times> pc) list"
  workers :: "wpc list"








definition unfinished :: "sys \<Rightarrow> nat" where
  "unfinished s = length (filter (\<lambda>w. w \<noteq> Released) (workers s))"


definition holders :: "sys \<Rightarrow> nat" where
  "holders s = length (filter (\<lambda>c. snd c = Launch \<or> snd c = HoldLock) (callers s))"



section \<open>Example states\<close>

text \<open>
  An anime whose cached row (primary key 7) owns two relation objects, at addresses 0
  and 1: related anime 1 as a sequel and related anime 2 as a prequel.
\<close>

definition ex_objs :: "addr \<Rightarrow> relation" where
  "ex_objs =
     (\<lambda>a. \<lparr>related_aid = 0, relation_type = [], anime_pk = None\<rparr>)
       (0 := \<lparr>related_aid = 1, relation_type = ''sequel'', anime_pk = Some 7\<rparr>,
        1 := \<lparr>related_aid = 2, relation_type = ''prequel'', anime_pk = Some 7\<rparr>)"

definition ex_anime_row :: anime_row where
  "ex_anime_row = \<lparr>attrs = [(''aid'', VInt 42)], updated = 100, pk = Some 7, relations = [0, 1]\<rparr>"

definition ex_anime :: Anime where
  "ex_anime =
     \<lparr>db_data = Some ex_anime_row, ev_updated = False, updating = True, trace = [],
      aid = 42, objs = ex_objs, fresh = 2\<rparr>"




text \<open>A cached file row for the path \<^verbatim>\<open>/a/ep01.mkv\<close>, of size 10.\<close>

definition ex_file_row :: row where
  "ex_file_row = \<lparr>attrs = [(''path'', VStr ''/a/ep01.mkv''), (''size'', VInt 10)], updated = 100\<rparr>"






text \<open>
  A generic file with a path, identified by guessing as episodes 1 and 2 of the
  example anime, refreshed, with its cached row.
\<close>

definition ex_first_episode :: Episode where
  "ex_first_episode =
     \<lparr>db_data = None, ev_updated = False, updating = False, trace = [],
      e_eid = VNone, e_anime = Some ex_anime, e_episode_number = VStr ''1''\<rparr>"

definition ex_generic_row :: row where
  "ex_generic_row =
     \<lparr>attrs = [(''path'', VStr ''/a/ep01-02.mkv''), (''size'', VInt 734),
               (''ed2khash'', VStr ''abc''), (''is_generic'', VBool True),
               (''aid'', VInt 42), (''eid'', VInt 0)],
      updated = 150\<rparr>"

definition ex_generic_file :: File where
  "ex_generic_file =
     \<lparr>db_data = Some ex_generic_row, ev_updated = False, updating = False, trace = [],
      f_anime = Some ex_anime, f_episode = Some ex_first_episode, f_multiep = [''1'', ''2''],
      f_fid = VNone, f_path = VStr ''/a/ep01-02.mkv'', f_size = VInt 734,
      f_ed2khash = VStr ''abc'', f_mtime = VInt 5,
      file_updated = True, mylist_updated = True\<rparr>"

section \<open>Dictionary lemmas\<close>

lemma dict_get_set_same: "dict_get k (dict_set k v d) = Some v"
proof (cases "dict_has k d")
  case False
  then have "map_of d k = None"
    by (simp add: dict_has_def map_of_eq_None_iff)
  with False show ?thesis
    by (simp add: dict_get_def dict_set_def map_add_def)
next
  case True
  have "k \<in> fst ` set d \<Longrightarrow> map_of (map (\<lambda>kv. if fst kv = k then (k, v) else kv) d) k = Some v"
    by (induction d) auto
  with True show ?thesis
    by (simp add: dict_get_def dict_set_def dict_has_def)
qed

lemma dict_get_set_other: "k' \<noteq> k \<Longrightarrow> dict_get k' (dict_set k v d) = dict_get k' d"
proof -
  assume ne: "k' \<noteq> k"
  have "map_of (map (\<lambda>kv. if fst kv = k then (k, v) else kv) d) k' = map_of d k'"
    using ne by (induction d) auto
  with ne show ?thesis
    by (simp add: dict_get_def dict_set_def map_add_def split: option.split)
qed

lemma and_mask_bit:
  fixes s :: int
  shows "(s AND 1 \<noteq> 0) = bit s 0" "(s AND 2 \<noteq> 0) = bit s 1" "(s AND 4 \<noteq> 0) = bit s 2"
    "(s AND 8 \<noteq> 0) = bit s 3" "(s AND 16 \<noteq> 0) = bit s 4" "(s AND 32 \<noteq> 0) = bit s 5"
    "(s AND 64 \<noteq> 0) = bit s 6" "(s AND 128 \<noteq> 0) = bit s 7"
  using and_exp_eq_0_iff_not_bit [of s 0] and_exp_eq_0_iff_not_bit [of s 1]
    and_exp_eq_0_iff_not_bit [of s 2] and_exp_eq_0_iff_not_bit [of s 3]
    and_exp_eq_0_iff_not_bit [of s 4] and_exp_eq_0_iff_not_bit [of s 5]
    and_exp_eq_0_iff_not_bit [of s 6] and_exp_eq_0_iff_not_bit [of s 7]
  by simp_all

lemma decode_crc_get:
  "dict_get ''crc_ok'' (decode_crc s d) =
     (if bit s 0 then Some (VBool True) else if bit s 1 then Some (VBool False)
      else dict_get ''crc_ok'' d)"
  by (simp add: decode_crc_def and_mask_bit dict_get_set_same)

lemma decode_version_get:
  "dict_get ''file_version'' (decode_version s d) =
     Some (VInt (if bit s 2 then 2 else if bit s 3 then 3 else if bit s 4 then 4
                 else if bit s 5 then 5 else 1))"
  by (simp add: decode_version_def and_mask_bit dict_get_set_same)

lemma decode_censored_get:
  "dict_get ''censored'' (decode_censored s d) =
     (if bit s 6 then Some (VBool False) else if bit s 7 then Some (VBool True)
      else dict_get ''censored'' d)"
  by (simp add: decode_censored_def and_mask_bit dict_get_set_same)

lemma decode_crc_other: "k \<noteq> ''crc_ok'' \<Longrightarrow> dict_get k (decode_crc s d) = dict_get k d"
  by (simp add: decode_crc_def dict_get_set_other)

lemma decode_version_other:
  "k \<noteq> ''file_version'' \<Longrightarrow> dict_get k (decode_version s d) = dict_get k d"
  by (simp add: decode_version_def dict_get_set_other)

lemma decode_censored_other:
  "k \<noteq> ''censored'' \<Longrightarrow> dict_get k (decode_censored s d) = dict_get k d"
  by (simp add: decode_censored_def dict_get_set_other)

section \<open>The relation loops\<close>























subsection \<open>Updating a row twice with the same keywords\<close>











subsection \<open>Merging the same relations twice\<close>









section \<open>Constructors and commits\<close>

lemma Episode_get_db_data_number [simp]:
  "e_episode_number (Episode_get_db_data q1 q2 s) = e_episode_number s"
  by (simp add: Episode_get_db_data_def Let_def split: list.splits)

lemma py_int_05: "py_int_str ''05'' = Inr 5"
  by (simp add: py_int_str_def strip_def is_space_def unsigned_int_def is_digit_def digits_val_def)

lemma py_str_int_5: "py_str_int 5 = ''5''"
  by code_simp





section \<open>The lock invariant\<close>




lemma holders_other [simp]:
  "holders (s\<lparr>lock_held := l\<rparr>) = holders s"
  "holders (s\<lparr>workers := w\<rparr>) = holders s"
  "holders (s\<lparr>lock_held := l, callers := c\<rparr>) = holders (s\<lparr>callers := c\<rparr>)"
  "holders (s\<lparr>callers := c, workers := w\<rparr>) = holders (s\<lparr>callers := c\<rparr>)"
  by (simp_all add: holders_def)

lemma unfinished_other [simp]:
  "unfinished (s\<lparr>lock_held := l\<rparr>) = unfinished s"
  "unfinished (s\<lparr>callers := c\<rparr>) = unfinished s"
  "unfinished (s\<lparr>lock_held := l, callers := c\<rparr>) = unfinished s"
  "unfinished (s\<lparr>lock_held := l, workers := w\<rparr>) = unfinished (s\<lparr>workers := w\<rparr>)"
  "unfinished (s\<lparr>callers := c, workers := workers s @ [Started]\<rparr>) = Suc (unfinished s)"
  by (simp_all add: unfinished_def)













section \<open>Claims\<close>



text \<open>
  C2. The claim is that construction normalises the episode number (\<^verbatim>\<open>"05"\<close> becomes
  \<^verbatim>\<open>"5"\<close>). \<^verbatim>\<open>Episode.__init__\<close> computes \<^verbatim>\<open>str(int(epno))\<close> and drops it: built with
  the episode number \<^verbatim>\<open>"05"\<close>, an Episode stores \<^verbatim>\<open>"05"\<close>, although \<^verbatim>\<open>int\<close> reads it as 5
  and \<^verbatim>\<open>str\<close> gives \<^verbatim>\<open>"5"\<close>, and although the callback's loop does store \<^verbatim>\<open>"5"\<close> for
  the same field.
\<close>

theorem C2_episode_init_keeps_epno:
  "map_sum id e_episode_number
      (Episode_init new_anime query_eid query_aid_epno (AnimeObj a) (VStr ''05'') VNone)
     = Inr (VStr ''05'')
   \<and> py_int (VStr ''05'') = Inr 5 \<and> py_str_int 5 = ''5''
   \<and> convert_episode conv [(''epno'', VStr ''05'')] = Inr [(''epno'', VStr ''5'')]"
  by (simp add: Episode_init_def Let_def py_int_05 py_str_int_5)

text \<open>
  C3. The claim is that both mylist mutations, on a generic file with several guessed
  episode numbers, send one request per episode number, each awaited before the
  next, and touch the local fields only after the answers. On a generic file with
  the guessed numbers 1 and 2 (each \<^verbatim>\<open>update\<close> leaving the file as it is):
  \<^verbatim>\<open>add_to_mylist\<close> does so, two requests, each answered and waited for, then the
  local fields and the commit; \<^verbatim>\<open>remove_from_mylist\<close> sends a single request keyed
  by size and hash, because \<^verbatim>\<open>self.db\<close> is no attribute and the size test comes
  before the episode loop; and that loop, were it reached, sends the request for
  episode 1 twice, since it takes \<^verbatim>\<open>self.episode.episode_number\<close> and not \<^verbatim>\<open>ep\<close>.
\<close>

theorem C3_mylist_requests:
  "File_add_to_mylist [(VInt 1, ''on hdd'')] (\<lambda>c. ''210'') get_file_stats get_file_hash
       new_anime new_episode (\<lambda>b s. s) (\<lambda>b e. e) 200 None ''on hdd'' False VNone VNone
       ex_generic_file
     = Returns (ex_generic_file
        \<lparr>db_data := Some (ex_generic_row\<lparr>attrs := attrs ex_generic_row @
             [(''mylist_state'', VStr ''on hdd''), (''mylist_viewed'', VInt 0),
              (''mylist_source'', VNone), (''mylist_other'', VNone)]\<rparr>),
          trace :=
            [Request (Command ''MyListAddCommand''
               [(''aid'', VInt 42), (''epno'', VStr ''1''), (''generic'', VInt 1),
                (''state'', VInt 1), (''viewed'', VInt 0), (''source'', VNone), (''other'', VNone)]) True,
             Answered ''210'', Waited,
             Request (Command ''MyListAddCommand''
               [(''aid'', VInt 42), (''epno'', VStr ''2''), (''generic'', VInt 1),
                (''state'', VInt 1), (''viewed'', VInt 0), (''source'', VNone), (''other'', VNone)]) True,
             Answered ''210'', Waited,
             Waited, DbCommit]\<rparr>)
   \<and> File_remove_from_mylist (\<lambda>c. ''211'') get_file_stats get_file_hash
       new_anime new_episode (\<lambda>b s. s) (\<lambda>b e. e) 200 ex_generic_file
     = Returns (ex_generic_file
        \<lparr>trace :=
            [Request (Command ''MyListDelCommand''
               [(''size'', VInt 734), (''ed2k'', VStr ''abc'')]) True,
             Answered ''211'', LogInfo, Waited]\<rparr>)
   \<and> del_episodes (\<lambda>c. ''211'') new_anime new_episode (\<lambda>b s. s) (\<lambda>b e. e)
       [VStr ''1'', VStr ''2''] ex_generic_file
     = Returns (ex_generic_file
        \<lparr>trace :=
            [Request (Command ''MyListDelCommand'' [(''aid'', VInt 42), (''epno'', VStr ''1'')]) True,
             Answered ''211'', LogInfo, Waited,
             Request (Command ''MyListDelCommand'' [(''aid'', VInt 42), (''epno'', VStr ''1'')]) True,
             Answered ''211'', LogInfo, Waited]\<rparr>)"
proof -
  have fresh: "update_if_old (\<lambda>b s. s) ex_generic_file week False 200 ex_generic_file = ex_generic_file"
    by (simp add: update_if_old_def Let_def split: option.split)
  have ga: "File_getattr (\<lambda>b s. s) 200 name ex_generic_file
      = (getattr (Some ex_generic_row) name, ex_generic_file)" for name
    by (simp add: File_getattr_def fresh Let_def) (simp add: ex_generic_file_def)
  have fid: "File_fid (\<lambda>b s. s) ex_generic_file = Inr (VNone, ex_generic_file)"
    by (simp add: File_fid_def ex_generic_file_def getattr_def dict_get_def ex_generic_row_def)
  have an: "File_anime_aid new_anime (\<lambda>b s. s) (ex_generic_file\<lparr>trace := tr\<rparr>)
      = Inr (VInt 42, ex_generic_file\<lparr>trace := tr\<rparr>)" for tr
    by (simp add: File_anime_aid_def File_anime_def ex_generic_file_def ex_anime_def)
  have an0: "File_anime_aid new_anime (\<lambda>b s. s) ex_generic_file = Inr (VInt 42, ex_generic_file)"
    by (simp add: File_anime_aid_def File_anime_def ex_generic_file_def ex_anime_def)
  have en: "File_episode_number new_anime new_episode (\<lambda>b s. s) (\<lambda>b e. e) (ex_generic_file\<lparr>trace := tr\<rparr>)
      = Inr (VStr ''1'', ex_generic_file\<lparr>trace := tr\<rparr>)" for tr
    by (simp add: File_episode_number_def File_episode_def Episode_episode_number_def
        ex_generic_file_def ex_first_episode_def)
  have en0: "File_episode_number new_anime new_episode (\<lambda>b s. s) (\<lambda>b e. e) ex_generic_file
      = Inr (VStr ''1'', ex_generic_file)"
    by (simp add: File_episode_number_def File_episode_def Episode_episode_number_def
        ex_generic_file_def ex_first_episode_def)
  have eps: "episode_numbers new_anime new_episode (\<lambda>b s. s) (\<lambda>b e. e) ex_generic_file
      = Inr ([VStr ''1'', VStr ''2''], ex_generic_file)"
    by (simp add: episode_numbers_def ex_generic_file_def)
  have tr: "trace ex_generic_file = []" and db: "db_data ex_generic_file = Some ex_generic_row"
    by (simp_all add: ex_generic_file_def)
  have add: "File_add_to_mylist [(VInt 1, ''on hdd'')] (\<lambda>c. ''210'') get_file_stats get_file_hash
       new_anime new_episode (\<lambda>b s. s) (\<lambda>b e. e) 200 None ''on hdd'' False VNone VNone
       ex_generic_file
     = Returns (ex_generic_file
        \<lparr>db_data := Some (ex_generic_row\<lparr>attrs := attrs ex_generic_row @
             [(''mylist_state'', VStr ''on hdd''), (''mylist_viewed'', VInt 0),
              (''mylist_source'', VNone), (''mylist_other'', VNone)]\<rparr>),
          trace :=
            [Request (Command ''MyListAddCommand''
               [(''aid'', VInt 42), (''epno'', VStr ''1''), (''generic'', VInt 1),
                (''state'', VInt 1), (''viewed'', VInt 0), (''source'', VNone), (''other'', VNone)]) True,
             Answered ''210'', Waited,
             Request (Command ''MyListAddCommand''
               [(''aid'', VInt 42), (''epno'', VStr ''2''), (''generic'', VInt 1),
                (''state'', VInt 1), (''viewed'', VInt 0), (''source'', VNone), (''other'', VNone)]) True,
             Answered ''210'', Waited,
             Waited, DbCommit]\<rparr>)"
    by (simp add: File_add_to_mylist_def fresh fid ga eps an an0 link_request_def
        mylistadd_callback_def add_local_def db_commit_def tr db Let_def
        getattr_def dict_get_def dict_set_def dict_has_def ex_generic_row_def)
  have size: "File_size get_file_stats ex_generic_file = (VInt 734, ex_generic_file)"
    by (simp add: File_size_def ex_generic_file_def)
  have hash: "File_ed2khash get_file_stats get_file_hash ex_generic_file = Inr (VStr ''abc'', ex_generic_file)"
    by (simp add: File_ed2khash_def ex_generic_file_def)
  have rem: "File_remove_from_mylist (\<lambda>c. ''211'') get_file_stats get_file_hash
       new_anime new_episode (\<lambda>b s. s) (\<lambda>b e. e) 200 ex_generic_file
     = Returns (ex_generic_file
        \<lparr>trace :=
            [Request (Command ''MyListDelCommand''
               [(''size'', VInt 734), (''ed2k'', VStr ''abc'')]) True,
             Answered ''211'', LogInfo, Waited]\<rparr>)"
    by (simp add: File_remove_from_mylist_def ga size hash link_request_def
        mylistdel_callback_def tr Let_def getattr_def dict_get_def ex_generic_row_def)
  have loop: "del_episodes (\<lambda>c. ''211'') new_anime new_episode (\<lambda>b s. s) (\<lambda>b e. e)
       [VStr ''1'', VStr ''2''] ex_generic_file
     = Returns (ex_generic_file
        \<lparr>trace :=
            [Request (Command ''MyListDelCommand'' [(''aid'', VInt 42), (''epno'', VStr ''1'')]) True,
             Answered ''211'', LogInfo, Waited,
             Request (Command ''MyListDelCommand'' [(''aid'', VInt 42), (''epno'', VStr ''1'')]) True,
             Answered ''211'', LogInfo, Waited]\<rparr>)"
    by (simp add: an an0 en en0 link_request_def mylistdel_callback_def tr Let_def)
  from add rem loop show ?thesis by (intro conjI)
qed



text \<open>
  C5. For every numeric status value of a normal file response, the decode sets
  \<^verbatim>\<open>crc_ok\<close> to true when bit 0 is set, else to false when bit 1 is set, and else leaves
  the entry as it was (absent, when the response carried none); it always sets
  \<^verbatim>\<open>file_version\<close>, to 2, 3, 4 or 5 for the first set bit among bits 2, 3, 4 and 5 and to
  1 when none of them is set; it sets \<^verbatim>\<open>censored\<close> to false when bit 6 is set, else to
  true when bit 7 is set, and else leaves it as it was. A status with only bit 2 set,
  decoded into an empty dictionary, gives file version 2 and neither of the two flags.
\<close>

theorem C5_decode_state:
  "dict_get ''crc_ok'' (decode_state s d) =
     (if bit s 0 then Some (VBool True) else if bit s 1 then Some (VBool False)
      else dict_get ''crc_ok'' d)
   \<and> dict_get ''file_version'' (decode_state s d) =
     Some (VInt (if bit s 2 then 2 else if bit s 3 then 3 else if bit s 4 then 4
                 else if bit s 5 then 5 else 1))
   \<and> dict_get ''censored'' (decode_state s d) =
     (if bit s 6 then Some (VBool False) else if bit s 7 then Some (VBool True)
      else dict_get ''censored'' d)
   \<and> decode_state 4 [] = [(''file_version'', VInt 2)]"
proof -
  have crc: "dict_get ''crc_ok'' (decode_state s d) = dict_get ''crc_ok'' (decode_crc s d)"
    by (simp add: decode_state_def decode_censored_other decode_version_other)
  have ver: "dict_get ''file_version'' (decode_state s d)
      = dict_get ''file_version'' (decode_version s (decode_crc s d))"
    by (simp add: decode_state_def decode_censored_other)
  have cen: "dict_get ''censored'' (decode_state s d) = dict_get ''censored'' d"
    if "\<not> bit s 6" "\<not> bit s 7"
    using that
    by (simp add: decode_state_def decode_censored_get decode_version_other decode_crc_other)
  have ex: "decode_state 4 [] = [(''file_version'', VInt 2)]"
    by (simp add: decode_state_def decode_censored_def decode_version_def decode_crc_def
        dict_set_def dict_has_def)
  show ?thesis
    using crc ver cen ex
    by (simp add: decode_crc_get decode_version_get decode_state_def decode_censored_get)
qed

text \<open>
  C6. A File constructed from a path (no file id, no anime) whose path lookup returns
  a first row with a size other than the probed size: the constructor deletes that
  row and calls the commit helper, and the entity is left with no cached row. These
  are the only calls it makes: no request is sent. When the commit succeeds the
  deletion is committed; when it raises DBAPIError the helper rolls back, and the
  entity still has no cached row.
\<close>

theorem C6_stale_row_discarded:
  assumes "truthy path" and "\<not> truthy fid" and "\<not> anime_truthy anime"
    and "query_path path = r # rs"
    and "getattr (Some r) ''size'' \<noteq> snd (get_file_stats path)"
  shows "File_init get_file_stats new_anime new_episode query_fid query_path None
           path fid anime episode
         = Inr \<lparr>db_data = None, ev_updated = False, updating = False,
                trace = [DbDelete r, DbCommit],
                f_anime = None, f_episode = None, f_multiep = [], f_fid = VNone,
                f_path = path, f_size = snd (get_file_stats path), f_ed2khash = VNone,
                f_mtime = fst (get_file_stats path),
                file_updated = False, mylist_updated = False\<rparr>
    \<and> File_init get_file_stats new_anime new_episode query_fid query_path (Some DBAPIError)
           path fid anime episode
         = Inr \<lparr>db_data = None, ev_updated = False, updating = False,
                trace = [DbDelete r, DbCommitRaised DBAPIError, LogWarning, DbRollback],
                f_anime = None, f_episode = None, f_multiep = [], f_fid = VNone,
                f_path = path, f_size = snd (get_file_stats path), f_ed2khash = VNone,
                f_mtime = fst (get_file_stats path),
                file_updated = False, mylist_updated = False\<rparr>"
  using assms
  by (simp add: File_init_def File_get_db_data_def db_commit_def Let_def)

theorem C6_stale_row_discarded_witness:
  "map_sum id (\<lambda>f. (db_data f, trace f, f_size f))
     (File_init (\<lambda>p. (VInt 5, VInt 20)) (\<lambda>v. Inl IndexError) (\<lambda>a v. Inl AniDBError)
        (\<lambda>v. []) (\<lambda>v. [ex_file_row]) None
        (VStr ''/a/ep01.mkv'') VNone (AnimeVal VNone) (EpisodeVal VNone))
   = Inr (None, [DbDelete ex_file_row, DbCommit], VInt 20)"
  using C6_stale_row_discarded [of "VStr ''/a/ep01.mkv''" VNone "AnimeVal VNone"
      "\<lambda>v. [ex_file_row]" ex_file_row "[]" "\<lambda>p. (VInt 5, VInt 20)"
      "\<lambda>v. Inl IndexError" "\<lambda>a v. Inl AniDBError" "\<lambda>v. []" "EpisodeVal VNone"]
  by (simp add: getattr_def dict_get_def ex_file_row_def)








text \<open>
  C10. For every anime response whose first data record lacks the related id list
  field or the related type list field, the merge callback raises TypeError (it
  iterates \<^verbatim>\<open>None\<close>) with the entity, its cached row and the storage session as they
  were: nothing is added, deleted or committed. The refresh that delivered the
  response has cleared the completion event, the callback does not set it, and the
  refresh thread waits on it for ever, the refresh lock still as it was.
\<close>

theorem C10_no_relations_raises:
  assumes "datalines res = ainfo # others"
    and "\<not> (dict_has ''related_aid_list'' ainfo \<and> dict_has ''related_aid_type'' ainfo)"
  shows "Anime_db_data_callback m conv now raised res s = Inl (TypeError, s)
    \<and> Anime_send_anidb_update_req m conv amask now raised res prio s =
        Waits (s\<lparr>ev_updated := False,
                 trace := trace s @ [Request (Command ''AnimeCommand''
                   [(''aid'', VStr (py_str_int (aid s))), (''amask'', amask)]) prio]\<rparr>)"
proof -
  have gr: "get_relations ainfo = Inr (None, ainfo)"
    by (simp only: get_relations_def if_not_P [OF assms(2)])
  have cb: "Anime_db_data_callback m conv now raised res t = Inl (TypeError, t)" for t
    by (simp add: Anime_db_data_callback_def Anime_parse_def assms(1) gr)
  show ?thesis
    by (simp add: cb Anime_send_anidb_update_req_def after_callback_def Let_def)
qed

theorem C10_no_relations_raises_witness:
  "Anime_db_data_callback Map.empty (\<lambda>k. None) 200 None
      \<lparr>rescode = ''230'', datalines = [[(''aid'', VStr ''42''), (''year'', VStr ''1998'')]]\<rparr> ex_anime
     = Inl (TypeError, ex_anime)
   \<and> Anime_send_anidb_update_req Map.empty (\<lambda>k. None) (VStr ''b0'') 200 None
      \<lparr>rescode = ''230'', datalines = [[(''aid'', VStr ''42''), (''year'', VStr ''1998'')]]\<rparr> True ex_anime
     = Waits (ex_anime\<lparr>ev_updated := False,
                 trace := [Request (Command ''AnimeCommand''
                   [(''aid'', VStr (py_str_int 42)), (''amask'', VStr ''b0'')]) True]\<rparr>)"
  using C10_no_relations_raises [of
      "\<lparr>rescode = ''230'', datalines = [[(''aid'', VStr ''42''), (''year'', VStr ''1998'')]]\<rparr>"
      "[(''aid'', VStr ''42''), (''year'', VStr ''1998'')]" "[]"
      Map.empty "\<lambda>k. None" 200 None ex_anime "VStr ''b0''" True]
  by (simp add: dict_has_def ex_anime_def)

end
